theory Spec2Isabelle
  imports Complex_Main
begin

section \<open>Scene data\<close>

text \<open>
  The application layer (\<^verbatim>\<open>WalnutApp.cpp\<close>, class \<^verbatim>\<open>ExampleLayer\<close>) owns a renderer, a
  camera and a scene. The scene types are declared in a header that the layer includes;
  the layer reads and writes exactly the fields below. A \<^verbatim>\<open>float\<close> field is modelled by
  the real number its literal denotes; \<^verbatim>\<open>int MaterialIndex\<close> by an integer.
\<close>

type_synonym vec3 = "real \<times> real \<times> real"

record Material =
  Albedo :: vec3
  Roughness :: real
  Metallic :: real

record Sphere =
  Position :: vec3
  Radius :: real
  MaterialIndex :: int

record Scene =
  Spheres :: "Sphere list"
  Materials :: "Material list"

text \<open>A default-constructed scene holds two empty vectors.\<close>

definition Scene_default :: Scene where
  "Scene_default = \<lparr>Spheres = [], Materials = []\<rparr>"

text \<open>
  The constructor of \<^verbatim>\<open>ExampleLayer\<close>, restricted to the scene it builds. Each material is
  appended default-constructed (\<^verbatim>\<open>emplace_back()\<close>) and then has \<^verbatim>\<open>Albedo\<close> and
  \<^verbatim>\<open>Roughness\<close> assigned; the default-constructed material \<open>dm\<close> is a parameter, since the
  constructor never assigns \<^verbatim>\<open>Metallic\<close>. Each sphere has all three fields assigned before
  it is pushed.
\<close>

definition ctor_materials :: "Material \<Rightarrow> Scene \<Rightarrow> Scene" where
  "ctor_materials dm sc =
     (let sc1 = sc\<lparr>Materials := Materials sc @ [dm]\<rparr>;
          sphere1 = (last (Materials sc1))\<lparr>Albedo := (1, 0, 1), Roughness := 0\<rparr>;
          sc2 = sc1\<lparr>Materials := butlast (Materials sc1) @ [sphere1]\<rparr>;
          sc3 = sc2\<lparr>Materials := Materials sc2 @ [dm]\<rparr>;
          sphere2 = (last (Materials sc3))\<lparr>Albedo := (0.2, 0.3, 1), Roughness := 0.1\<rparr>
      in sc3\<lparr>Materials := butlast (Materials sc3) @ [sphere2]\<rparr>)"

definition ctor_spheres :: "Scene \<Rightarrow> Scene" where
  "ctor_spheres sc =
     (let sc1 = sc\<lparr>Spheres := Spheres sc @
                  [\<lparr>Position = (0, 0, 0), Radius = 1, MaterialIndex = 0\<rparr>]\<rparr>
      in sc1\<lparr>Spheres := Spheres sc1 @
                  [\<lparr>Position = (0, -101, 0), Radius = 100, MaterialIndex = 1\<rparr>]\<rparr>)"

definition initial_scene :: "Material \<Rightarrow> Scene" where
  "initial_scene dm = ctor_spheres (ctor_materials dm Scene_default)"


section \<open>Renderer and camera\<close>

text \<open>
  \<^verbatim>\<open>Renderer.h\<close> and \<^verbatim>\<open>Camera.h\<close> are included by the layer but are not among the sources.
  Their state and operations are modelled from the specification; the numerical kernels
  (ray directions, the per-pixel trace, the camera's reaction to input devices) are
  parameters, collected in the record \<open>Engine\<close> further down.
\<close>

type_synonym vec4 = "real \<times> real \<times> real \<times> real"
type_synonym rgba8 = "nat \<times> nat \<times> nat \<times> nat"

text \<open>
  Modelled from the spec: the image handed to the presenter (an RGBA8 buffer together with
  its width and height); the image class itself belongs to the application framework.
\<close>

record Image =
  ImageWidth :: int
  ImageHeight :: int
  ImageData :: "rgba8 list"

text \<open>
  Modelled from the spec: the renderer state of section 3 (accumulation buffer, final
  image, frame index, the accumulate setting). \<open>FinalImage = None\<close> is the state
  without buffers.
\<close>

record Renderer =
  FinalImage :: "Image option"
  AccumulationData :: "vec4 list"
  FrameIndex :: nat
  Accumulate :: bool

text \<open>
  Modelled from the spec: the camera state of section 3 (\<^verbatim>\<open>Camera.h\<close> is missing).
\<close>

record Camera =
  CamPosition :: vec3
  ForwardDirection :: vec3
  VerticalFOV :: real
  NearClip :: real
  FarClip :: real
  ViewportWidth :: int
  ViewportHeight :: int
  RayDirections :: "vec3 list"

text \<open>
  The kernels that neither the layer's source nor the specification fixes:
  \<^item> \<open>camera_update ts cam\<close>: \<^verbatim>\<open>Camera::OnUpdate(ts)\<close>, which polls the input devices and
    returns whether the view changed, together with the camera it leaves behind;
  \<^item> \<open>ray_direction cam x y\<close>: the direction cached for pixel \<open>(x, y)\<close>;
  \<^item> \<open>per_pixel scene cam frameIndex pixelIndex\<close>: the light traced for one pixel.
\<close>

record Engine =
  camera_update :: "real \<Rightarrow> Camera \<Rightarrow> bool \<times> Camera"
  ray_direction :: "Camera \<Rightarrow> nat \<Rightarrow> nat \<Rightarrow> vec3"
  per_pixel :: "Scene \<Rightarrow> Camera \<Rightarrow> nat \<Rightarrow> nat \<Rightarrow> vec3"

text \<open>
  Modelled from the spec: \<^verbatim>\<open>Renderer::ResetFrameIndex\<close> (missing) "sets frameIndex = 1 and
  zeroes accumulationBuffer".
\<close>

definition Renderer_ResetFrameIndex :: "Renderer \<Rightarrow> Renderer" where
  "Renderer_ResetFrameIndex r =
     r\<lparr>FrameIndex := 1,
       AccumulationData := map (\<lambda>_. (0, 0, 0, 0)) (AccumulationData r)\<rparr>"

text \<open>
  Modelled from the spec: \<^verbatim>\<open>Renderer::OnResize\<close> (missing). Section 7: zero or negative
  dimensions are a no-op. Section 4.3: "if dimensions are unchanged and buffers already
  exist, no-op. Otherwise reallocate accumulationBuffer and finalImage to width*height,
  and call resetFrameIndex()".
\<close>

definition Renderer_OnResize :: "Renderer \<Rightarrow> int \<Rightarrow> int \<Rightarrow> Renderer" where
  "Renderer_OnResize r w h =
     (if w \<le> 0 \<or> h \<le> 0 then r
      else if (case FinalImage r of
                 None \<Rightarrow> False
               | Some img \<Rightarrow> ImageWidth img = w \<and> ImageHeight img = h) then r
      else Renderer_ResetFrameIndex
             (r\<lparr>FinalImage := Some \<lparr>ImageWidth = w, ImageHeight = h,
                                    ImageData = replicate (nat (w * h)) (0, 0, 0, 0)\<rparr>,
                AccumulationData := replicate (nat (w * h)) (0, 0, 0, 0)\<rparr>))"

text \<open>
  Modelled from the spec: the resolve step of section 4.3 (4), which "clamps each channel
  to [0,1] and converts to the 8-bit display encoding".
\<close>

definition toChannel :: "real \<Rightarrow> nat" where
  "toChannel c = nat \<lfloor>255 * max 0 (min 1 c)\<rfloor>"

text \<open>Modelled from the spec: the resolve step applied to the four channels of a pixel.\<close>

definition toDisplay :: "vec4 \<Rightarrow> rgba8" where
  "toDisplay v =
     (case v of (r, g, b, a) \<Rightarrow> (toChannel r, toChannel g, toChannel b, toChannel a))"

text \<open>
  Modelled from the spec: the vector arithmetic of the accumulation (componentwise sum,
  division by the frame index) and the light of a sample "as vec4 with alpha 1".
\<close>

definition vec4_add :: "vec4 \<Rightarrow> vec4 \<Rightarrow> vec4" where
  "vec4_add u v =
     (case u of (a, b, c, d) \<Rightarrow> case v of (e, f, g, h) \<Rightarrow> (a + e, b + f, c + g, d + h))"

definition vec4_div :: "vec4 \<Rightarrow> real \<Rightarrow> vec4" where
  "vec4_div u k = (case u of (a, b, c, d) \<Rightarrow> (a / k, b / k, c / k, d / k))"

definition light_vec4 :: "vec3 \<Rightarrow> vec4" where
  "light_vec4 l = (case l of (r, g, b) \<Rightarrow> (r, g, b, 1))"

text \<open>
  Modelled from the spec: \<^verbatim>\<open>Renderer::Render\<close> (missing), steps 1 to 5 of section 4.3. One
  sample per pixel is traced and, as a vec4 with alpha 1, added into the accumulation
  buffer (or written over it when accumulation is off, where the frame index is pinned at
  1); every pixel is resolved by dividing by the frame index; the frame index is
  incremented at the end of the pass if accumulation is enabled and is 1 otherwise.
\<close>

definition Renderer_Render :: "Engine \<Rightarrow> Renderer \<Rightarrow> Scene \<Rightarrow> Camera \<Rightarrow> Renderer" where
  "Renderer_Render K r scene cam =
     (let fi = (if Accumulate r then FrameIndex r else 1);
          samples = map (\<lambda>i. light_vec4 (per_pixel K scene cam fi i))
                        [0 ..< length (AccumulationData r)];
          acc = (if Accumulate r then map2 vec4_add (AccumulationData r) samples
                 else samples);
          resolved = map (\<lambda>a. toDisplay (vec4_div a (real fi))) acc
      in r\<lparr>AccumulationData := acc,
            FinalImage := map_option (\<lambda>img. img\<lparr>ImageData := resolved\<rparr>) (FinalImage r),
            FrameIndex := (if Accumulate r then FrameIndex r + 1 else 1)\<rparr>)"

text \<open>
  Modelled from the spec: \<^verbatim>\<open>Renderer::GetFinalImage\<close> (missing) returns the handle of the
  most recently resolved image; the handle is null while no image exists.
\<close>

definition Renderer_GetFinalImage :: "Renderer \<Rightarrow> Image option" where
  "Renderer_GetFinalImage r = FinalImage r"

text \<open>
  Modelled from the spec: \<^verbatim>\<open>Camera::OnResize\<close> (missing). Section 7: zero or negative
  dimensions are a no-op. Section 4.1: "no-op if unchanged; otherwise updates viewport
  dimensions, recomputes the projection, and regenerates all width*height cached ray
  directions" (row-major).
\<close>

definition Camera_OnResize :: "Engine \<Rightarrow> Camera \<Rightarrow> int \<Rightarrow> int \<Rightarrow> Camera" where
  "Camera_OnResize K cam w h =
     (if w \<le> 0 \<or> h \<le> 0 then cam
      else if w = ViewportWidth cam \<and> h = ViewportHeight cam then cam
      else (let cam1 = cam\<lparr>ViewportWidth := w, ViewportHeight := h\<rparr>
            in cam1\<lparr>RayDirections :=
                 map (\<lambda>i. ray_direction K cam1 (i mod nat w) (i div nat w))
                     [0 ..< nat (w * h)]\<rparr>))"

section \<open>User-interface widgets\<close>

text \<open>
  The widgets are calls into the immediate-mode GUI library. What the user does to a drag
  widget during one frame is a gesture: the widget is left alone, it is dragged with the
  mouse towards the value \<open>x\<close>, or the value \<open>x\<close> is typed into it (Ctrl+Click turns a
  drag box into an input box). Each widget returns whether it changed the variable, and
  the new value. By the library's header, a drag clamps to its bounds only when
  \<open>v_min < v_max\<close> ("if v_min >= v_max we have no bound", which is also the case of the
  default bounds \<open>0, 0\<close>), and a typed value is clamped only under the flag
  \<^verbatim>\<open>ImGuiSliderFlags_AlwaysClamp\<close>. Every drag widget of the layer is called with the
  default flags 0, so a typed value is stored as typed.
\<close>

datatype 'a gesture = Untouched | MouseDrag 'a | TypedValue 'a

definition DragInt :: "int \<Rightarrow> int gesture \<Rightarrow> int \<Rightarrow> int \<Rightarrow> bool \<times> int" where
  "DragInt v g v_min v_max =
     (case g of
        Untouched \<Rightarrow> (False, v)
      | MouseDrag x \<Rightarrow>
          (let x' = (if v_min < v_max then max v_min (min v_max x) else x)
           in (x' \<noteq> v, x'))
      | TypedValue x \<Rightarrow> (x \<noteq> v, x))"

definition DragFloat :: "real \<Rightarrow> real gesture \<Rightarrow> real \<Rightarrow> real \<Rightarrow> bool \<times> real" where
  "DragFloat v g v_min v_max =
     (case g of
        Untouched \<Rightarrow> (False, v)
      | MouseDrag x \<Rightarrow>
          (let x' = (if v_min < v_max then max v_min (min v_max x) else x)
           in (x' \<noteq> v, x'))
      | TypedValue x \<Rightarrow> (x \<noteq> v, x))"

text \<open>The three-component drag is called without bounds: dragged or typed, the value is stored.\<close>

definition DragFloat3 :: "vec3 \<Rightarrow> vec3 gesture \<Rightarrow> bool \<times> vec3" where
  "DragFloat3 v g =
     (case g of
        Untouched \<Rightarrow> (False, v)
      | MouseDrag x \<Rightarrow> (x \<noteq> v, x)
      | TypedValue x \<Rightarrow> (x \<noteq> v, x))"

text \<open>The colour editor stores the colour the user picks, if any.\<close>

definition ColorEdit3 :: "vec3 \<Rightarrow> vec3 option \<Rightarrow> bool \<times> vec3" where
  "ColorEdit3 v edit = (case edit of None \<Rightarrow> (False, v) | Some x \<Rightarrow> (x \<noteq> v, x))"

definition Checkbox :: "bool \<Rightarrow> bool \<Rightarrow> bool \<times> bool" where
  "Checkbox v clicked = (clicked, if clicked then \<not> v else v)"

record SphereInput =
  dragPosition :: "vec3 gesture"
  dragRadius :: "real gesture"
  dragMaterial :: "int gesture"

record MaterialInput =
  editAlbedo :: "vec3 option"
  dragRoughness :: "real gesture"
  dragMetallic :: "real gesture"

text \<open>
  The user's input to one call of \<^verbatim>\<open>OnUIRender\<close>: the three controls of the settings
  window, the widgets of sphere \<open>i\<close> and of material \<open>i\<close>, and the size of the viewport's
  content region as stored into the two \<^verbatim>\<open>uint32_t\<close> members.
\<close>

record UIInput =
  renderButton :: bool
  accumulateClicked :: bool
  resetButton :: bool
  sphereInput :: "nat \<Rightarrow> SphereInput"
  materialInput :: "nat \<Rightarrow> MaterialInput"
  contentRegionAvail :: "nat \<times> nat"

section \<open>The application layer\<close>

record ExampleLayer =
  m_Renderer :: Renderer
  m_Camera :: Camera
  m_Scene :: Scene
  m_ViewportWidth :: nat
  m_ViewportHeight :: nat

text \<open>
  The calls the layer makes on its collaborators, in the order it makes them, and the
  moments at which a widget changes a scene field. Every operation of the layer returns
  this log next to the new state; the log is what the ordering properties are about.
\<close>

datatype Call =
    C_Camera_OnUpdate real
  | C_Renderer_ResetFrameIndex
  | C_Renderer_OnResize nat nat
  | C_Camera_OnResize nat nat
  | C_Renderer_Render
  | C_Renderer_GetFinalImage
  | C_ImGui_Image int int
  | E_Sphere_Edit nat
  | E_Material_Edit nat

text \<open>
  The constructor: the renderer is default-constructed, the camera is built by
  \<^verbatim>\<open>Camera(45.0f, 0.1f, 100.0f)\<close>, both by code outside the layer, hence the parameters
  \<open>r0\<close> and \<open>cam0\<close>; the viewport members start at 0.
\<close>

definition ExampleLayer_ctor :: "Renderer \<Rightarrow> Camera \<Rightarrow> Material \<Rightarrow> ExampleLayer" where
  "ExampleLayer_ctor r0 cam0 dm =
     \<lparr>m_Renderer = r0, m_Camera = cam0, m_Scene = initial_scene dm,
      m_ViewportWidth = 0, m_ViewportHeight = 0\<rparr>"

text \<open>\<^verbatim>\<open>OnUpdate(ts)\<close>: the camera is updated, and the frame index is reset if it moved.\<close>

definition OnUpdate :: "Engine \<Rightarrow> real \<Rightarrow> ExampleLayer \<Rightarrow> Call list \<times> ExampleLayer" where
  "OnUpdate K ts s =
     (case camera_update K ts (m_Camera s) of
        (moved, cam) \<Rightarrow>
          if moved
          then ([C_Camera_OnUpdate ts, C_Renderer_ResetFrameIndex],
                s\<lparr>m_Camera := cam, m_Renderer := Renderer_ResetFrameIndex (m_Renderer s)\<rparr>)
          else ([C_Camera_OnUpdate ts], s\<lparr>m_Camera := cam\<rparr>))"

text \<open>\<^verbatim>\<open>Render()\<close>: resize the renderer, resize the camera, render. The timer is left out.\<close>

definition Render :: "Engine \<Rightarrow> ExampleLayer \<Rightarrow> Call list \<times> ExampleLayer" where
  "Render K s =
     (let w = m_ViewportWidth s;
          h = m_ViewportHeight s;
          r1 = Renderer_OnResize (m_Renderer s) (int w) (int h);
          cam1 = Camera_OnResize K (m_Camera s) (int w) (int h);
          r2 = Renderer_Render K r1 (m_Scene s) cam1
      in ([C_Renderer_OnResize w h, C_Camera_OnResize w h, C_Renderer_Render],
          s\<lparr>m_Renderer := r2, m_Camera := cam1\<rparr>))"

text \<open>
  The body of the first loop of the scene window, for sphere \<open>i\<close>: the drag widgets of
  position and radius have no bounds, the one of the material index has the bounds 0
  and \<open>hi\<close>, which the caller sets to \<^verbatim>\<open>(int)m_Scene.Materials.size() - 1\<close>.
\<close>

definition edit_mark :: "Call \<Rightarrow> bool \<Rightarrow> Call list" where
  "edit_mark e changed = (if changed then [e] else [])"

definition sphere_widgets :: "SphereInput \<Rightarrow> int \<Rightarrow> nat \<Rightarrow> Sphere \<Rightarrow> Call list \<times> Sphere" where
  "sphere_widgets inp hi i sphere =
     (case DragFloat3 (Position sphere) (dragPosition inp) of (c1, p) \<Rightarrow>
      case DragFloat (Radius sphere) (dragRadius inp) 0 0 of (c2, r) \<Rightarrow>
      case DragInt (MaterialIndex sphere) (dragMaterial inp) 0 hi of (c3, m) \<Rightarrow>
        (edit_mark (E_Sphere_Edit i) c1 @ edit_mark (E_Sphere_Edit i) c2
           @ edit_mark (E_Sphere_Edit i) c3,
         sphere\<lparr>Position := p, Radius := r, MaterialIndex := m\<rparr>))"

fun spheres_loop ::
  "(nat \<Rightarrow> SphereInput) \<Rightarrow> int \<Rightarrow> nat \<Rightarrow> Sphere list \<Rightarrow> Call list \<times> Sphere list" where
  "spheres_loop inp hi i [] = ([], [])"
| "spheres_loop inp hi i (sphere # rest) =
     (case sphere_widgets (inp i) hi i sphere of (c, sphere') \<Rightarrow>
      case spheres_loop inp hi (Suc i) rest of (cs, rest') \<Rightarrow>
        (c @ cs, sphere' # rest'))"

text \<open>The body of the second loop: albedo, roughness and metallic of material \<open>i\<close>.\<close>

definition material_widgets :: "MaterialInput \<Rightarrow> nat \<Rightarrow> Material \<Rightarrow> Call list \<times> Material" where
  "material_widgets inp i material =
     (case ColorEdit3 (Albedo material) (editAlbedo inp) of (c1, a) \<Rightarrow>
      case DragFloat (Roughness material) (dragRoughness inp) 0 1 of (c2, r) \<Rightarrow>
      case DragFloat (Metallic material) (dragMetallic inp) 0 1 of (c3, m) \<Rightarrow>
        (edit_mark (E_Material_Edit i) c1 @ edit_mark (E_Material_Edit i) c2
           @ edit_mark (E_Material_Edit i) c3,
         material\<lparr>Albedo := a, Roughness := r, Metallic := m\<rparr>))"

fun materials_loop ::
  "(nat \<Rightarrow> MaterialInput) \<Rightarrow> nat \<Rightarrow> Material list \<Rightarrow> Call list \<times> Material list" where
  "materials_loop inp i [] = ([], [])"
| "materials_loop inp i (material # rest) =
     (case material_widgets (inp i) i material of (c, material') \<Rightarrow>
      case materials_loop inp (Suc i) rest of (cs, rest') \<Rightarrow>
        (c @ cs, material' # rest'))"

definition scene_window :: "UIInput \<Rightarrow> Scene \<Rightarrow> Call list \<times> Scene" where
  "scene_window ui scene =
     (case spheres_loop (sphereInput ui) (int (length (Materials scene)) - 1) 0
             (Spheres scene) of (c1, spheres) \<Rightarrow>
      case materials_loop (materialInput ui) 0 (Materials scene) of (c2, materials) \<Rightarrow>
        (c1 @ c2, scene\<lparr>Spheres := spheres, Materials := materials\<rparr>))"

text \<open>
  The viewport window shows the final image. \<^verbatim>\<open>image->...\<close> on a null handle is an invalid
  access; it is the one fault the model of the layer can raise.
\<close>

datatype fault = NullDereference

definition deref :: "'a option \<Rightarrow> fault + 'a" where
  "deref p = (case p of None \<Rightarrow> Inl NullDereference | Some x \<Rightarrow> Inr x)"

definition viewport_image :: "Image option \<Rightarrow> fault + Call list" where
  "viewport_image handle =
     (if handle \<noteq> None then
        (case deref handle of Inl e \<Rightarrow> Inl e | Inr descriptor_of \<Rightarrow>
        (case deref handle of Inl e \<Rightarrow> Inl e | Inr width_of \<Rightarrow>
        (case deref handle of Inl e \<Rightarrow> Inl e | Inr height_of \<Rightarrow>
           Inr [C_ImGui_Image (ImageWidth width_of) (ImageHeight height_of)])))
      else Inr [])"

text \<open>
  \<^verbatim>\<open>OnUIRender()\<close>. In source order: the Render button, the Accumulate checkbox, the Reset
  button, the scene window, the viewport window (which stores the content region and
  shows the final image), and the closing call of \<^verbatim>\<open>Render()\<close>. The statistics window
  between the viewport and the closing call touches neither renderer, camera nor scene
  and is left out.
\<close>

definition OnUIRender ::
  "Engine \<Rightarrow> UIInput \<Rightarrow> ExampleLayer \<Rightarrow> fault + (Call list \<times> ExampleLayer)" where
  "OnUIRender K ui s0 =
     (case (if renderButton ui then Render K s0 else ([], s0)) of (c1, s1) \<Rightarrow>
      case Checkbox (Accumulate (m_Renderer s1)) (accumulateClicked ui) of (_, acc) \<Rightarrow>
      let s2 = s1\<lparr>m_Renderer := (m_Renderer s1)\<lparr>Accumulate := acc\<rparr>\<rparr> in
      case (if resetButton ui
            then ([C_Renderer_ResetFrameIndex],
                  s2\<lparr>m_Renderer := Renderer_ResetFrameIndex (m_Renderer s2)\<rparr>)
            else ([], s2)) of (c3, s3) \<Rightarrow>
      case scene_window ui (m_Scene s3) of (c4, scene) \<Rightarrow>
      let s4 = s3\<lparr>m_Scene := scene\<rparr>;
          s5 = s4\<lparr>m_ViewportWidth := fst (contentRegionAvail ui),
                  m_ViewportHeight := snd (contentRegionAvail ui)\<rparr>
      in (case viewport_image (Renderer_GetFinalImage (m_Renderer s5)) of
            Inl e \<Rightarrow> Inl e
          | Inr c5 \<Rightarrow>
              (case Render K s5 of (c6, s6) \<Rightarrow>
                 Inr (c1 @ c3 @ c4 @ C_Renderer_GetFinalImage # c5 @ c6, s6))))"

text \<open>
  One iteration of the framework's main loop: it calls \<^verbatim>\<open>OnUpdate\<close> with the time step
  and then \<^verbatim>\<open>OnUIRender\<close>.
\<close>

definition Frame ::
  "Engine \<Rightarrow> real \<Rightarrow> UIInput \<Rightarrow> ExampleLayer \<Rightarrow> fault + (Call list \<times> ExampleLayer)" where
  "Frame K ts ui s =
     (case OnUpdate K ts s of (c0, s0) \<Rightarrow>
       (case OnUIRender K ui s0 of
          Inl e \<Rightarrow> Inl e
        | Inr (c, s1) \<Rightarrow> Inr (c0 @ c, s1)))"


section \<open>Reading the call log\<close>

definition calls_of :: "fault + (Call list \<times> 's) \<Rightarrow> Call list" where
  "calls_of res = (case res of Inl e \<Rightarrow> [] | Inr (cs, s) \<Rightarrow> cs)"

definition state_of :: "fault + (Call list \<times> 's) \<Rightarrow> 's option" where
  "state_of res = (case res of Inl e \<Rightarrow> None | Inr (cs, s) \<Rightarrow> Some s)"

text \<open>The log entries that mark a changed scene field.\<close>

fun is_edit :: "Call \<Rightarrow> bool" where
  "is_edit (E_Sphere_Edit i) = True"
| "is_edit (E_Material_Edit i) = True"
| "is_edit c = False"

text \<open>
  The five operations whose order within a frame the specification prescribes: camera
  update, the two resizes, render, and the read of the final image.
\<close>

fun core_call :: "Call \<Rightarrow> bool" where
  "core_call (C_Camera_OnUpdate ts) = True"
| "core_call (C_Renderer_OnResize w h) = True"
| "core_call (C_Camera_OnResize w h) = True"
| "core_call C_Renderer_Render = True"
| "core_call C_Renderer_GetFinalImage = True"
| "core_call c = False"

text \<open>
  The order of a frame in the words of the specification: update, resize of renderer and
  camera, render, then exposure of the image.
\<close>

definition frame_order_as_specified :: "real \<Rightarrow> nat \<Rightarrow> nat \<Rightarrow> Call list" where
  "frame_order_as_specified ts w h =
     [C_Camera_OnUpdate ts, C_Renderer_OnResize w h, C_Camera_OnResize w h, C_Renderer_Render,
      C_Renderer_GetFinalImage]"

text \<open>
  The discipline the specification asks of the caller, as a check of a call log: once a
  scene field has been edited, a reset of the frame index comes before the next render.
  \<open>pending\<close> tells whether an edit is still waiting for its reset.
\<close>

fun reset_follows_edits :: "bool \<Rightarrow> Call list \<Rightarrow> bool" where
  "reset_follows_edits pending [] = True"
| "reset_follows_edits pending (E_Sphere_Edit i # cs) = reset_follows_edits True cs"
| "reset_follows_edits pending (E_Material_Edit i # cs) = reset_follows_edits True cs"
| "reset_follows_edits pending (C_Renderer_ResetFrameIndex # cs) = reset_follows_edits False cs"
| "reset_follows_edits pending (C_Renderer_Render # cs) =
     (\<not> pending \<and> reset_follows_edits False cs)"
| "reset_follows_edits pending (c # cs) = reset_follows_edits pending cs"


section \<open>Concrete inputs\<close>

text \<open>
  Small concrete collaborators and inputs, on which the layer is run. The probing engine
  leaves the camera alone and traces, for every pixel, the radius of the first sphere
  into the red channel, so that a sample shows which scene it was traced from; the moving
  engine reports a camera move.
\<close>

definition probe_engine :: Engine where
  "probe_engine =
     \<lparr>camera_update = (\<lambda>ts cam. (False, cam)),
      ray_direction = (\<lambda>cam x y. (0, 0, -1)),
      per_pixel = (\<lambda>scene cam fi i.
                     case Spheres scene of [] \<Rightarrow> (0, 0, 0) | sphere # _ \<Rightarrow> (Radius sphere, 0, 0))\<rparr>"

definition moving_engine :: Engine where
  "moving_engine =
     probe_engine\<lparr>camera_update := (\<lambda>ts cam. (True, cam\<lparr>CamPosition := (0, 0, 5)\<rparr>))\<rparr>"

definition fresh_renderer :: Renderer where
  "fresh_renderer =
     \<lparr>FinalImage = None, AccumulationData = [], FrameIndex = 1, Accumulate = True\<rparr>"

definition start_camera :: Camera where
  "start_camera =
     \<lparr>CamPosition = (0, 0, 6), ForwardDirection = (0, 0, -1), VerticalFOV = 45,
      NearClip = 0.1, FarClip = 100, ViewportWidth = 0, ViewportHeight = 0,
      RayDirections = []\<rparr>"

definition plain_material :: Material where
  "plain_material = \<lparr>Albedo = (1, 1, 1), Roughness = 1, Metallic = 0\<rparr>"

definition start_layer :: ExampleLayer where
  "start_layer = ExampleLayer_ctor fresh_renderer start_camera plain_material"

definition no_sphere_input :: SphereInput where
  "no_sphere_input =
     \<lparr>dragPosition = Untouched, dragRadius = Untouched, dragMaterial = Untouched\<rparr>"

definition no_material_input :: MaterialInput where
  "no_material_input =
     \<lparr>editAlbedo = None, dragRoughness = Untouched, dragMetallic = Untouched\<rparr>"

text \<open>Nothing is touched; the viewport's content region is 2 by 1 pixels.\<close>

definition idle_input :: UIInput where
  "idle_input =
     \<lparr>renderButton = False, accumulateClicked = False, resetButton = False,
      sphereInput = (\<lambda>i. no_sphere_input), materialInput = (\<lambda>i. no_material_input),
      contentRegionAvail = (2, 1)\<rparr>"

definition press_render_input :: UIInput where
  "press_render_input = idle_input\<lparr>renderButton := True\<rparr>"

text \<open>
  The radius of sphere 0 is dragged to 2; its material index is dragged towards 7; the
  value 7 is typed into its material index.
\<close>

definition drag_radius_input :: UIInput where
  "drag_radius_input =
     idle_input\<lparr>sphereInput :=
       (\<lambda>i. if i = 0 then no_sphere_input\<lparr>dragRadius := MouseDrag 2\<rparr> else no_sphere_input)\<rparr>"



text \<open>
  The layer after its first frame, run with the probing engine and the idle input: one
  sample per pixel has been accumulated and the frame index is 2.
\<close>

definition accumulated_layer :: ExampleLayer where
  "accumulated_layer =
     \<lparr>m_Renderer =
        \<lparr>FinalImage = Some \<lparr>ImageWidth = 2, ImageHeight = 1,
                              ImageData = [(255, 0, 0, 255), (255, 0, 0, 255)]\<rparr>,
         AccumulationData = [(1, 0, 0, 1), (1, 0, 0, 1)], FrameIndex = 2, Accumulate = True\<rparr>,
      m_Camera = start_camera\<lparr>ViewportWidth := 2, ViewportHeight := 1,
                               RayDirections := [(0, 0, -1), (0, 0, -1)]\<rparr>,
      m_Scene = initial_scene plain_material,
      m_ViewportWidth = 2, m_ViewportHeight = 1\<rparr>"

text \<open>The renderer with accumulation switched off in the middle of an accumulation.\<close>

definition single_sample_renderer :: Renderer where
  "single_sample_renderer = fresh_renderer\<lparr>FrameIndex := 5, Accumulate := False\<rparr>"

section \<open>Properties of the layer's operations\<close>

subsection \<open>The call log of a frame\<close>

lemma viewport_image_total:
  "viewport_image handle =
     Inr (case handle of
            None \<Rightarrow> []
          | Some img \<Rightarrow> [C_ImGui_Image (ImageWidth img) (ImageHeight img)])"
  by (simp add: viewport_image_def deref_def split: option.splits)

lemma Render_calls:
  "fst (Render K s) =
     [C_Renderer_OnResize (m_ViewportWidth s) (m_ViewportHeight s),
      C_Camera_OnResize (m_ViewportWidth s) (m_ViewportHeight s), C_Renderer_Render]"
  by (simp add: Render_def Let_def)

lemma Render_scene: "m_Scene (snd (Render K s)) = m_Scene s"
  by (simp add: Render_def Let_def)

lemma OnUpdate_scene: "m_Scene (snd (OnUpdate K ts s)) = m_Scene s"
  by (simp add: OnUpdate_def split: prod.splits)

lemma OnUpdate_viewport:
  "m_ViewportWidth (snd (OnUpdate K ts s)) = m_ViewportWidth s"
  "m_ViewportHeight (snd (OnUpdate K ts s)) = m_ViewportHeight s"
  by (simp_all add: OnUpdate_def split: prod.splits)

text \<open>
  \<^verbatim>\<open>OnUIRender\<close> never faults, and its log is: the optional render of the button, the
  optional reset of the button, the edits of the scene window, the read of the final
  image with its optional display, and the closing render.
\<close>

lemma OnUIRender_calls:
  "\<exists>s'. OnUIRender K ui s =
     Inr ((if renderButton ui then fst (Render K s) else [])
          @ (if resetButton ui then [C_Renderer_ResetFrameIndex] else [])
          @ fst (scene_window ui (m_Scene s))
          @ C_Renderer_GetFinalImage
          # (case Renderer_GetFinalImage
                    (m_Renderer (if renderButton ui then snd (Render K s) else s)) of
               None \<Rightarrow> []
             | Some img \<Rightarrow> [C_ImGui_Image (ImageWidth img) (ImageHeight img)])
          @ [C_Renderer_OnResize (fst (contentRegionAvail ui)) (snd (contentRegionAvail ui)),
             C_Camera_OnResize (fst (contentRegionAvail ui)) (snd (contentRegionAvail ui)),
             C_Renderer_Render], s')
     \<and> m_Scene s' = snd (scene_window ui (m_Scene s))"
  by (cases "renderButton ui"; cases "resetButton ui")
     (simp_all add: OnUIRender_def viewport_image_total Render_def Let_def Checkbox_def
        Renderer_GetFinalImage_def Renderer_ResetFrameIndex_def case_prod_unfold)

lemma Frame_calls:
  "\<exists>s'. Frame K ts ui s =
     Inr (fst (OnUpdate K ts s)
          @ (if renderButton ui
             then [C_Renderer_OnResize (m_ViewportWidth s) (m_ViewportHeight s),
                   C_Camera_OnResize (m_ViewportWidth s) (m_ViewportHeight s), C_Renderer_Render]
             else [])
          @ (if resetButton ui then [C_Renderer_ResetFrameIndex] else [])
          @ fst (scene_window ui (m_Scene s))
          @ C_Renderer_GetFinalImage
          # (case Renderer_GetFinalImage
                    (m_Renderer (if renderButton ui then snd (Render K (snd (OnUpdate K ts s)))
                                 else snd (OnUpdate K ts s))) of
               None \<Rightarrow> []
             | Some img \<Rightarrow> [C_ImGui_Image (ImageWidth img) (ImageHeight img)])
          @ [C_Renderer_OnResize (fst (contentRegionAvail ui)) (snd (contentRegionAvail ui)),
             C_Camera_OnResize (fst (contentRegionAvail ui)) (snd (contentRegionAvail ui)),
             C_Renderer_Render], s')
     \<and> m_Scene s' = snd (scene_window ui (m_Scene s))"
proof -
  obtain s' where
    "OnUIRender K ui (snd (OnUpdate K ts s)) =
       Inr ((if renderButton ui then fst (Render K (snd (OnUpdate K ts s))) else [])
          @ (if resetButton ui then [C_Renderer_ResetFrameIndex] else [])
          @ fst (scene_window ui (m_Scene (snd (OnUpdate K ts s))))
          @ C_Renderer_GetFinalImage
          # (case Renderer_GetFinalImage
                    (m_Renderer (if renderButton ui then snd (Render K (snd (OnUpdate K ts s)))
                                 else snd (OnUpdate K ts s))) of
               None \<Rightarrow> []
             | Some img \<Rightarrow> [C_ImGui_Image (ImageWidth img) (ImageHeight img)])
          @ [C_Renderer_OnResize (fst (contentRegionAvail ui)) (snd (contentRegionAvail ui)),
             C_Camera_OnResize (fst (contentRegionAvail ui)) (snd (contentRegionAvail ui)),
             C_Renderer_Render], s')"
    and "m_Scene s' = snd (scene_window ui (m_Scene (snd (OnUpdate K ts s))))"
    using OnUIRender_calls [of K ui "snd (OnUpdate K ts s)"] by blast
  then show ?thesis
    by (simp add: Frame_def case_prod_unfold Render_calls OnUpdate_scene OnUpdate_viewport)
qed

subsection \<open>The scene window\<close>

lemma sphere_widgets_edits:
  "c \<in> set (fst (sphere_widgets inp hi i sphere)) \<Longrightarrow> c = E_Sphere_Edit i"
  by (auto simp: sphere_widgets_def edit_mark_def case_prod_unfold split: if_splits)

lemma material_widgets_edits:
  "c \<in> set (fst (material_widgets inp i material)) \<Longrightarrow> c = E_Material_Edit i"
  by (auto simp: material_widgets_def edit_mark_def case_prod_unfold split: if_splits)

lemma spheres_loop_edits: "c \<in> set (fst (spheres_loop inp hi i sps)) \<Longrightarrow> is_edit c"
  by (induction sps arbitrary: i) (auto simp: case_prod_unfold dest: sphere_widgets_edits)

lemma materials_loop_edits: "c \<in> set (fst (materials_loop inp i ms)) \<Longrightarrow> is_edit c"
  by (induction ms arbitrary: i) (auto simp: case_prod_unfold dest: material_widgets_edits)

lemma scene_window_edits: "c \<in> set (fst (scene_window ui sc)) \<Longrightarrow> is_edit c"
  by (auto simp: scene_window_def case_prod_unfold dest: spheres_loop_edits materials_loop_edits)

lemma edit_not_core: "is_edit c \<Longrightarrow> \<not> core_call c"
  by (cases c) simp_all

lemma edit_not_image: "is_edit c \<Longrightarrow> c \<noteq> C_ImGui_Image w h"
  by (cases c) simp_all

lemma scene_window_no_core: "filter core_call (fst (scene_window ui sc)) = []"
  by (auto simp: filter_empty_conv dest: scene_window_edits edit_not_core)

lemma scene_window_no_image: "C_ImGui_Image w h \<notin> set (fst (scene_window ui sc))"
  using scene_window_edits edit_not_image by blast

lemma OnUpdate_core: "filter core_call (fst (OnUpdate K ts s)) = [C_Camera_OnUpdate ts]"
  by (simp add: OnUpdate_def case_prod_unfold)

lemma reset_follows_edits_append_edits:
  "\<forall>c \<in> set es. is_edit c \<Longrightarrow>
   reset_follows_edits pending (es @ rest) = reset_follows_edits (pending \<or> es \<noteq> []) rest"
proof (induction es arbitrary: pending)
  case Nil
  then show ?case by simp
next
  case (Cons e es)
  then show ?case by (cases e) simp_all
qed









subsection \<open>Runs of frames\<close>





subsection \<open>The frame index under rendering\<close>

lemma Renderer_Render_Accumulate:
  "Accumulate (Renderer_Render K r scene cam) = Accumulate r"
  by (simp add: Renderer_Render_def Let_def)

lemma Renderer_Render_FrameIndex:
  "FrameIndex (Renderer_Render K r scene cam) = (if Accumulate r then FrameIndex r + 1 else 1)"
  by (simp add: Renderer_Render_def Let_def)

lemma Renderer_Render_funpow:
  "Accumulate r \<Longrightarrow>
   Accumulate (((\<lambda>r. Renderer_Render K r scene cam) ^^ n) r)
   \<and> FrameIndex (((\<lambda>r. Renderer_Render K r scene cam) ^^ n) r) = FrameIndex r + n"
  by (induction n) (simp_all add: Renderer_Render_Accumulate Renderer_Render_FrameIndex)

section \<open>The update tick\<close>

text \<open>
  C1. On every update tick the layer calls \<^verbatim>\<open>ResetFrameIndex\<close> on the renderer if and only
  if the camera's update returned true. When the camera reports a change, the call follows
  the update and the renderer is reset; when it reports none, the update is the only call
  and the renderer, with its accumulated samples, stays as it was. This holds for every
  behaviour of the camera's update.
\<close>

theorem OnUpdate_resets_iff_camera_moved:
  "(C_Renderer_ResetFrameIndex \<in> set (fst (OnUpdate K ts s))
      \<longleftrightarrow> fst (camera_update K ts (m_Camera s)))
   \<and> (fst (camera_update K ts (m_Camera s)) \<longrightarrow>
        fst (OnUpdate K ts s) = [C_Camera_OnUpdate ts, C_Renderer_ResetFrameIndex]
        \<and> m_Renderer (snd (OnUpdate K ts s)) = Renderer_ResetFrameIndex (m_Renderer s))
   \<and> (\<not> fst (camera_update K ts (m_Camera s)) \<longrightarrow>
        fst (OnUpdate K ts s) = [C_Camera_OnUpdate ts]
        \<and> m_Renderer (snd (OnUpdate K ts s)) = m_Renderer s)"
  by (simp add: OnUpdate_def case_prod_unfold)

text \<open>
  C1, on the accumulated layer: with the moving engine the frame index falls back to 1,
  with the probing engine (a camera at rest) it stays 2.
\<close>

theorem OnUpdate_resets_iff_camera_moved_witness:
  "fst (camera_update moving_engine 1 (m_Camera accumulated_layer))
   \<and> fst (OnUpdate moving_engine 1 accumulated_layer)
       = [C_Camera_OnUpdate 1, C_Renderer_ResetFrameIndex]
   \<and> FrameIndex (m_Renderer (snd (OnUpdate moving_engine 1 accumulated_layer))) = 1
   \<and> \<not> fst (camera_update probe_engine 1 (m_Camera accumulated_layer))
   \<and> fst (OnUpdate probe_engine 1 accumulated_layer) = [C_Camera_OnUpdate 1]
   \<and> FrameIndex (m_Renderer (snd (OnUpdate probe_engine 1 accumulated_layer))) = 2"
proof -
  have moved: "fst (camera_update moving_engine 1 (m_Camera accumulated_layer))"
    by (simp add: moving_engine_def)
  have still: "\<not> fst (camera_update probe_engine 1 (m_Camera accumulated_layer))"
    by (simp add: probe_engine_def)
  show ?thesis
    using moved still
      OnUpdate_resets_iff_camera_moved [of moving_engine 1 accumulated_layer]
      OnUpdate_resets_iff_camera_moved [of probe_engine 1 accumulated_layer]
    by (simp add: Renderer_ResetFrameIndex_def accumulated_layer_def)
qed

section \<open>Scene edits and accumulated samples\<close>

text \<open>
  C2, as stated, fails. On the accumulated layer the user drags the radius of sphere 0
  from 1 to 2 and touches nothing else. The log of \<^verbatim>\<open>OnUIRender\<close> then holds the edit and
  the closing render with no reset in between; the frame index goes from 2 to 3, and the
  accumulation buffer adds the sample of the edited scene (red 2) to the sample of the
  scene before the edit (red 1).
\<close>

theorem scene_edit_reaches_render_without_reset:
  "calls_of (OnUIRender probe_engine drag_radius_input accumulated_layer) =
     [E_Sphere_Edit 0, C_Renderer_GetFinalImage, C_ImGui_Image 2 1, C_Renderer_OnResize 2 1,
      C_Camera_OnResize 2 1, C_Renderer_Render]
   \<and> \<not> reset_follows_edits False
         (calls_of (OnUIRender probe_engine drag_radius_input accumulated_layer))
   \<and> map_option (FrameIndex \<circ> m_Renderer)
        (state_of (OnUIRender probe_engine drag_radius_input accumulated_layer)) = Some 3
   \<and> map_option (AccumulationData \<circ> m_Renderer)
        (state_of (OnUIRender probe_engine drag_radius_input accumulated_layer))
       = Some [(3, 0, 0, 2), (3, 0, 0, 2)]"
  by code_simp

text \<open>
  C2, amended. A scene edit triggers no reset: \<^verbatim>\<open>OnUIRender\<close> never faults, it calls
  \<^verbatim>\<open>ResetFrameIndex\<close> exactly when the Reset button is pressed, and its log keeps the
  discipline "reset between an edit and the next render" exactly when no widget of the
  scene window changed a field; pressing Reset in the same call does not change that.
\<close>

theorem OnUIRender_resets_only_on_button:
  "\<exists>cs s'. OnUIRender K ui s = Inr (cs, s')
     \<and> (C_Renderer_ResetFrameIndex \<in> set cs \<longleftrightarrow> resetButton ui)
     \<and> (reset_follows_edits False cs \<longleftrightarrow> fst (scene_window ui (m_Scene s)) = [])"
proof -
  let ?es = "fst (scene_window ui (m_Scene s))"
  have es: "\<forall>c \<in> set ?es. is_edit c"
    by (simp add: scene_window_edits)
  then have no_reset: "C_Renderer_ResetFrameIndex \<notin> set ?es"
    by auto
  obtain s' where run: "OnUIRender K ui s =
     Inr ((if renderButton ui then fst (Render K s) else [])
          @ (if resetButton ui then [C_Renderer_ResetFrameIndex] else [])
          @ ?es
          @ C_Renderer_GetFinalImage
          # (case Renderer_GetFinalImage
                    (m_Renderer (if renderButton ui then snd (Render K s) else s)) of
               None \<Rightarrow> []
             | Some img \<Rightarrow> [C_ImGui_Image (ImageWidth img) (ImageHeight img)])
          @ [C_Renderer_OnResize (fst (contentRegionAvail ui)) (snd (contentRegionAvail ui)),
             C_Camera_OnResize (fst (contentRegionAvail ui)) (snd (contentRegionAvail ui)),
             C_Renderer_Render], s')"
    using OnUIRender_calls [of K ui s] by blast
  show ?thesis
    using no_reset
    by (simp add: run Render_calls reset_follows_edits_append_edits [OF es]
          split: option.splits)
qed

text \<open>
  C2, amended, on the radius drag: the Reset button is not pressed, the scene window
  changes a field; no reset is called and the discipline is broken.
\<close>

theorem OnUIRender_resets_only_on_button_witness:
  "\<not> resetButton drag_radius_input
   \<and> fst (scene_window drag_radius_input (m_Scene accumulated_layer)) \<noteq> []
   \<and> (\<exists>cs s'. OnUIRender probe_engine drag_radius_input accumulated_layer = Inr (cs, s')
         \<and> C_Renderer_ResetFrameIndex \<notin> set cs
         \<and> \<not> reset_follows_edits False cs)"
proof -
  have button: "\<not> resetButton drag_radius_input"
    by (simp add: drag_radius_input_def idle_input_def)
  have edit: "fst (scene_window drag_radius_input (m_Scene accumulated_layer)) \<noteq> []"
    by code_simp
  show ?thesis
    using button edit
      OnUIRender_resets_only_on_button [of probe_engine drag_radius_input accumulated_layer]
    by auto
qed

section \<open>The order of calls in a frame\<close>

text \<open>
  C3, as stated, fails. In a frame of the accumulated layer with the idle input,
  \<^verbatim>\<open>GetFinalImage\<close> is called before the frame's render, not after it.
\<close>

theorem final_image_read_before_render:
  "filter core_call (calls_of (Frame probe_engine 1 idle_input accumulated_layer)) =
     [C_Camera_OnUpdate 1, C_Renderer_GetFinalImage, C_Renderer_OnResize 2 1,
      C_Camera_OnResize 2 1, C_Renderer_Render]
   \<and> filter core_call (calls_of (Frame probe_engine 1 idle_input accumulated_layer))
       \<noteq> frame_order_as_specified 1 2 1"
  by code_simp

text \<open>
  C3, amended. Every frame completes, and its five kinds of calls occur in this order:
  the camera update, once and first; when the Render button is pressed, a resize of
  renderer and camera with the viewport size stored by the previous frame, and a render;
  the call of \<^verbatim>\<open>GetFinalImage\<close>, once; and last, once, a resize of renderer and camera
  with the current size of the content region, and the render.
\<close>

theorem Frame_call_order:
  "\<exists>cs s'. Frame K ts ui s = Inr (cs, s')
     \<and> filter core_call cs =
         C_Camera_OnUpdate ts
         # (if renderButton ui
            then [C_Renderer_OnResize (m_ViewportWidth s) (m_ViewportHeight s),
                  C_Camera_OnResize (m_ViewportWidth s) (m_ViewportHeight s), C_Renderer_Render]
            else [])
         @ [C_Renderer_GetFinalImage,
            C_Renderer_OnResize (fst (contentRegionAvail ui)) (snd (contentRegionAvail ui)),
            C_Camera_OnResize (fst (contentRegionAvail ui)) (snd (contentRegionAvail ui)),
            C_Renderer_Render]"
proof -
  obtain cs s' where run: "Frame K ts ui s = Inr (cs, s')"
    and cs: "cs = fst (OnUpdate K ts s)
          @ (if renderButton ui
             then [C_Renderer_OnResize (m_ViewportWidth s) (m_ViewportHeight s),
                   C_Camera_OnResize (m_ViewportWidth s) (m_ViewportHeight s), C_Renderer_Render]
             else [])
          @ (if resetButton ui then [C_Renderer_ResetFrameIndex] else [])
          @ fst (scene_window ui (m_Scene s))
          @ C_Renderer_GetFinalImage
          # (case Renderer_GetFinalImage
                    (m_Renderer (if renderButton ui then snd (Render K (snd (OnUpdate K ts s)))
                                 else snd (OnUpdate K ts s))) of
               None \<Rightarrow> []
             | Some img \<Rightarrow> [C_ImGui_Image (ImageWidth img) (ImageHeight img)])
          @ [C_Renderer_OnResize (fst (contentRegionAvail ui)) (snd (contentRegionAvail ui)),
             C_Camera_OnResize (fst (contentRegionAvail ui)) (snd (contentRegionAvail ui)),
             C_Renderer_Render]"
    using Frame_calls [of K ts ui s] by blast
  have "filter core_call cs =
         C_Camera_OnUpdate ts
         # (if renderButton ui
            then [C_Renderer_OnResize (m_ViewportWidth s) (m_ViewportHeight s),
                  C_Camera_OnResize (m_ViewportWidth s) (m_ViewportHeight s), C_Renderer_Render]
            else [])
         @ [C_Renderer_GetFinalImage,
            C_Renderer_OnResize (fst (contentRegionAvail ui)) (snd (contentRegionAvail ui)),
            C_Camera_OnResize (fst (contentRegionAvail ui)) (snd (contentRegionAvail ui)),
            C_Renderer_Render]"
    by (simp add: cs scene_window_no_core OnUpdate_core split: option.splits)
  with run show ?thesis by blast
qed

text \<open>
  C3, amended, on the first frame of the application with the Render button pressed: the
  button renders with the initial viewport size 0 by 0, the closing render with 2 by 1.
\<close>

theorem Frame_call_order_witness:
  "renderButton press_render_input
   \<and> (\<exists>cs s'. Frame probe_engine 1 press_render_input start_layer = Inr (cs, s')
         \<and> filter core_call cs =
             [C_Camera_OnUpdate 1, C_Renderer_OnResize 0 0, C_Camera_OnResize 0 0,
              C_Renderer_Render, C_Renderer_GetFinalImage, C_Renderer_OnResize 2 1,
              C_Camera_OnResize 2 1, C_Renderer_Render])"
  using Frame_call_order [of probe_engine 1 press_render_input start_layer]
  by (simp add: press_render_input_def idle_input_def start_layer_def ExampleLayer_ctor_def)

section \<open>The initial scene\<close>

text \<open>
  C4. The scene of the layer as its constructor leaves it has exactly two spheres and two
  materials: the first sphere sits at the origin with radius 1 and refers to material 0,
  whose albedo is (1, 0, 1) and whose roughness is 0; the second sphere sits at
  (0, -101, 0) with radius 100 and refers to material 1, whose albedo is (0.2, 0.3, 1)
  and whose roughness is 0.1. This holds whatever the default-constructed renderer and
  material and the constructed camera are.
\<close>

theorem initial_scene_contents:
  "Spheres (m_Scene (ExampleLayer_ctor r0 cam0 dm)) =
     [\<lparr>Position = (0, 0, 0), Radius = 1, MaterialIndex = 0\<rparr>,
      \<lparr>Position = (0, -101, 0), Radius = 100, MaterialIndex = 1\<rparr>]
   \<and> Materials (m_Scene (ExampleLayer_ctor r0 cam0 dm)) =
     [dm\<lparr>Albedo := (1, 0, 1), Roughness := 0\<rparr>,
      dm\<lparr>Albedo := (0.2, 0.3, 1), Roughness := 0.1\<rparr>]
   \<and> length (Spheres (m_Scene (ExampleLayer_ctor r0 cam0 dm))) = 2
   \<and> length (Materials (m_Scene (ExampleLayer_ctor r0 cam0 dm))) = 2"
  by (simp add: ExampleLayer_ctor_def initial_scene_def ctor_spheres_def ctor_materials_def
        Scene_default_def Let_def)

text \<open>
  C4, on the layer constructed with the fresh renderer, the start camera and the plain
  material as the default-constructed one: both materials keep its metallic value 0.
\<close>

theorem initial_scene_contents_witness:
  "Spheres (m_Scene start_layer) =
     [\<lparr>Position = (0, 0, 0), Radius = 1, MaterialIndex = 0\<rparr>,
      \<lparr>Position = (0, -101, 0), Radius = 100, MaterialIndex = 1\<rparr>]
   \<and> Materials (m_Scene start_layer) =
     [\<lparr>Albedo = (1, 0, 1), Roughness = 0, Metallic = 0\<rparr>,
      \<lparr>Albedo = (0.2, 0.3, 1), Roughness = 0.1, Metallic = 0\<rparr>]"
  using initial_scene_contents [of fresh_renderer start_camera plain_material]
  by (simp add: start_layer_def plain_material_def)

section \<open>The frame index\<close>

text \<open>
  C5. A render call with accumulation enabled leaves the frame index one above its prior
  value; with accumulation disabled it leaves the frame index at 1; and \<open>n\<close> consecutive
  accumulating render calls that start at frame index 1 end at frame index \<open>n + 1\<close>.
\<close>

theorem Render_frame_index:
  "(Accumulate r \<longrightarrow> FrameIndex (Renderer_Render K r scene cam) = FrameIndex r + 1)
   \<and> (\<not> Accumulate r \<longrightarrow> FrameIndex (Renderer_Render K r scene cam) = 1)
   \<and> (Accumulate r \<and> FrameIndex r = 1 \<longrightarrow>
        FrameIndex (((\<lambda>r. Renderer_Render K r scene cam) ^^ n) r) = n + 1)"
  using Renderer_Render_funpow [where r = r and K = K and scene = scene and cam = cam and n = n]
  by (simp add: Renderer_Render_FrameIndex)

text \<open>
  C5, on the fresh renderer: one render call gives frame index 2, ten give 11; with
  accumulation switched off at frame index 5, a render call gives 1.
\<close>

theorem Render_frame_index_witness:
  "Accumulate fresh_renderer \<and> FrameIndex fresh_renderer = 1
   \<and> FrameIndex (Renderer_Render probe_engine fresh_renderer (initial_scene plain_material)
                    start_camera) = 2
   \<and> FrameIndex (((\<lambda>r. Renderer_Render probe_engine r (initial_scene plain_material)
                    start_camera) ^^ 10) fresh_renderer) = 11
   \<and> \<not> Accumulate single_sample_renderer
   \<and> FrameIndex (Renderer_Render probe_engine single_sample_renderer
                    (initial_scene plain_material) start_camera) = 1"
  using
    Render_frame_index [where r = fresh_renderer and K = probe_engine
      and scene = "initial_scene plain_material" and cam = start_camera and n = 10]
    Render_frame_index [where r = single_sample_renderer and K = probe_engine
      and scene = "initial_scene plain_material" and cam = start_camera and n = 0]
  by (simp add: fresh_renderer_def single_sample_renderer_def)

section \<open>Resizing\<close>

text \<open>
  C7. A resize of the renderer or of the camera with a zero or negative dimension, or
  with the dimensions it already has, is a no-op: the state, buffers included, is
  returned as it was. A resize that does change the state allocates buffers of the
  positive size \<open>w * h\<close>. The layer's \<^verbatim>\<open>Render\<close> passes its two unsigned viewport members
  to both resizes, so a viewport with a zero side leaves the camera as it was.
\<close>

theorem resize_noop:
  "(w \<le> 0 \<or> h \<le> 0 \<longrightarrow> Renderer_OnResize r w h = r \<and> Camera_OnResize K cam w h = cam)
   \<and> ((\<exists>img. FinalImage r = Some img \<and> ImageWidth img = w \<and> ImageHeight img = h) \<longrightarrow>
        Renderer_OnResize r w h = r)
   \<and> (ViewportWidth cam = w \<and> ViewportHeight cam = h \<longrightarrow> Camera_OnResize K cam w h = cam)
   \<and> (Renderer_OnResize r w h \<noteq> r \<longrightarrow>
        0 < w * h \<and> length (AccumulationData (Renderer_OnResize r w h)) = nat (w * h)
        \<and> (\<exists>img. FinalImage (Renderer_OnResize r w h) = Some img
              \<and> length (ImageData img) = nat (w * h)))
   \<and> (Camera_OnResize K cam w h \<noteq> cam \<longrightarrow>
        0 < w * h \<and> length (RayDirections (Camera_OnResize K cam w h)) = nat (w * h))
   \<and> (m_ViewportWidth s = 0 \<or> m_ViewportHeight s = 0 \<longrightarrow>
        m_Camera (snd (Render K s)) = m_Camera s)"
  by (auto simp: Renderer_OnResize_def Camera_OnResize_def Renderer_ResetFrameIndex_def Let_def
        Render_def mult_pos_pos not_le)

text \<open>
  C7, on the renderer and camera of the accumulated layer, whose buffers are 2 by 1: the
  sizes 0 by 5, -1 by 5 and 2 by 1 change nothing; the size 3 by 1 reallocates three
  pixels.
\<close>

theorem resize_noop_witness:
  "Renderer_OnResize (m_Renderer accumulated_layer) 0 5 = m_Renderer accumulated_layer
   \<and> Camera_OnResize probe_engine (m_Camera accumulated_layer) 0 5 = m_Camera accumulated_layer
   \<and> Renderer_OnResize (m_Renderer accumulated_layer) (- 1) 5 = m_Renderer accumulated_layer
   \<and> FinalImage (m_Renderer accumulated_layer)
       = Some \<lparr>ImageWidth = 2, ImageHeight = 1,
               ImageData = [(255, 0, 0, 255), (255, 0, 0, 255)]\<rparr>
   \<and> Renderer_OnResize (m_Renderer accumulated_layer) 2 1 = m_Renderer accumulated_layer
   \<and> Camera_OnResize probe_engine (m_Camera accumulated_layer) 2 1 = m_Camera accumulated_layer
   \<and> Renderer_OnResize (m_Renderer accumulated_layer) 3 1 \<noteq> m_Renderer accumulated_layer
   \<and> length (AccumulationData (Renderer_OnResize (m_Renderer accumulated_layer) 3 1)) = 3
   \<and> m_Camera (snd (Render probe_engine start_layer)) = m_Camera start_layer"
proof -
  have changed:
    "Renderer_OnResize (m_Renderer accumulated_layer) 3 1 \<noteq> m_Renderer accumulated_layer"
    by (simp add: Renderer_OnResize_def Renderer_ResetFrameIndex_def accumulated_layer_def)
  have zero: "m_ViewportWidth start_layer = 0"
    by (simp add: start_layer_def ExampleLayer_ctor_def)
  show ?thesis
    using changed zero
      resize_noop [where w = 0 and h = 5 and r = "m_Renderer accumulated_layer"
        and K = probe_engine and cam = "m_Camera accumulated_layer" and s = start_layer]
      resize_noop [where w = "- 1" and h = 5 and r = "m_Renderer accumulated_layer"
        and K = probe_engine and cam = "m_Camera accumulated_layer" and s = start_layer]
      resize_noop [where w = 2 and h = 1 and r = "m_Renderer accumulated_layer"
        and K = probe_engine and cam = "m_Camera accumulated_layer" and s = start_layer]
      resize_noop [where w = 3 and h = 1 and r = "m_Renderer accumulated_layer"
        and K = probe_engine and cam = "m_Camera accumulated_layer" and s = start_layer]
    by (simp add: accumulated_layer_def start_camera_def)
qed

section \<open>Presenting the final image\<close>

text \<open>
  C9. The viewport window dereferences the handle of the final image only under the null
  check: on a null handle it draws nothing; on no handle does it fault; \<^verbatim>\<open>OnUIRender\<close> as
  a whole never faults, and when the handle it reads is null its log holds no image
  display. (The handle read is that of the renderer as the Render button, if pressed,
  left it.)
\<close>

theorem null_image_is_not_dereferenced:
  "viewport_image None = Inr []
   \<and> (\<exists>cs. viewport_image handle = Inr cs)
   \<and> (\<exists>cs s'. OnUIRender K ui s = Inr (cs, s')
        \<and> (Renderer_GetFinalImage
               (m_Renderer (if renderButton ui then snd (Render K s) else s)) = None
             \<longrightarrow> (\<forall>w h. C_ImGui_Image w h \<notin> set cs)))"
proof -
  obtain cs s' where run: "OnUIRender K ui s = Inr (cs, s')"
    and cs: "cs = (if renderButton ui then fst (Render K s) else [])
          @ (if resetButton ui then [C_Renderer_ResetFrameIndex] else [])
          @ fst (scene_window ui (m_Scene s))
          @ C_Renderer_GetFinalImage
          # (case Renderer_GetFinalImage
                    (m_Renderer (if renderButton ui then snd (Render K s) else s)) of
               None \<Rightarrow> []
             | Some img \<Rightarrow> [C_ImGui_Image (ImageWidth img) (ImageHeight img)])
          @ [C_Renderer_OnResize (fst (contentRegionAvail ui)) (snd (contentRegionAvail ui)),
             C_Camera_OnResize (fst (contentRegionAvail ui)) (snd (contentRegionAvail ui)),
             C_Renderer_Render]"
    using OnUIRender_calls [of K ui s] by blast
  have "Renderer_GetFinalImage
          (m_Renderer (if renderButton ui then snd (Render K s) else s)) = None
        \<longrightarrow> (\<forall>w h. C_ImGui_Image w h \<notin> set cs)"
    by (simp add: cs Render_calls scene_window_no_image)
  with run show ?thesis
    by (simp add: viewport_image_total)
qed

text \<open>
  C9, on the first call of \<^verbatim>\<open>OnUIRender\<close>: the layer as constructed has no final image,
  and nothing is displayed.
\<close>

theorem null_image_is_not_dereferenced_witness:
  "\<not> renderButton idle_input
   \<and> Renderer_GetFinalImage (m_Renderer start_layer) = None
   \<and> (\<exists>cs s'. OnUIRender probe_engine idle_input start_layer = Inr (cs, s')
         \<and> (\<forall>w h. C_ImGui_Image w h \<notin> set cs))"
  using null_image_is_not_dereferenced [of _ probe_engine idle_input start_layer]
  by (simp add: idle_input_def start_layer_def ExampleLayer_ctor_def fresh_renderer_def
        Renderer_GetFinalImage_def)

section \<open>Material indices under editing\<close>




end
